theory Spec2Isabelle
  imports Complex_Main
begin

section \<open>Data model of the collaboration service (lib/collaboration)\<close>

text \<open>
  The interfaces \<open>SharedSession\<close> and \<open>CodeSync\<close> of the collaboration module. The
  string-literal unions \<open>'view' | 'edit'\<close> and \<open>'edit' | 'cursor' | 'language'\<close> are
  datatypes, \<open>string | null\<close> and \<open>number | null\<close> are options. A time stamp is the
  number of milliseconds \<open>Date.now()\<close> returned; the source stores its ISO rendering
  (\<open>toISOString\<close>), which is a fixed-width rendering of that number. The two interfaces
  both have fields \<open>id\<close> and \<open>created_at\<close>, so these carry the interface as suffix.
\<close>

datatype permission = View | Edit

datatype action = ActEdit | ActCursor | ActLanguage

record SharedSession =
  id_session :: string
  session_id :: string
  share_code :: string
  host_user_id :: "string option"
  guest_user_id :: "string option"
  permissions :: permission
  is_active :: bool
  connected_at :: "int option"
  created_at_session :: int
  expires_at :: int

record CodeSync =
  id_sync :: string
  shared_session_id :: string
  user_id :: string
  code_content :: string
  language :: string
  cursor_line :: "int option"
  cursor_column :: "int option"
  action_sync :: action
  created_at_sync :: string

text \<open>
  The browser's \<open>localStorage\<close>, as the service uses it: the keys
  \<open>shared_session_<code>\<close> hold one session record each and the keys
  \<open>code_sync_<id>\<close> hold one event log each (both as JSON text, which
  \<open>JSON.parse\<close> reads back as it was written). The two key prefixes differ in their
  first character, so the two families of keys are two maps.
\<close>

record localStorage =
  shared_session_items :: "string \<rightharpoonup> SharedSession"
  code_sync_items :: "string \<rightharpoonup> CodeSync list"

section \<open>Share-code generator\<close>

definition chars :: string where
  "chars = ''ABCDEFGHJKLMNPQRSTUVWXYZ23456789''"

text \<open>\<open>String.prototype.charAt\<close>: the one-character string at the index, the empty
  string out of range.\<close>

definition charAt :: "string \<Rightarrow> int \<Rightarrow> string" where
  "charAt s k = (if 0 \<le> k \<and> k < int (length s) then [s ! nat k] else [])"

text \<open>
  The loop of \<open>generateShareCode\<close>; \<open>rnd i\<close> is what \<open>Math.random()\<close> returns in
  iteration \<open>i\<close>.
\<close>

function generateShareCode_loop :: "(nat \<Rightarrow> real) \<Rightarrow> nat \<Rightarrow> string \<Rightarrow> string" where
  "generateShareCode_loop rnd i code =
     (if i < 6
      then generateShareCode_loop rnd (i + 1)
             (code @ charAt chars \<lfloor>rnd i * real (length chars)\<rfloor>)
      else code)"
  by pat_completeness auto
termination
  by (relation "measure (\<lambda>(rnd, i, code). 6 - i)") auto

definition generateShareCode :: "(nat \<Rightarrow> real) \<Rightarrow> string" where
  "generateShareCode rnd = generateShareCode_loop rnd 0 []"

section \<open>String helpers of the host language\<close>

text \<open>
  \<open>String.prototype.toUpperCase\<close> on the ASCII range: the 26 lower-case letters map to
  their capitals, every other character is left as it is. Share codes are typed ASCII
  text; characters outside ASCII are not modelled.
\<close>

definition toUpperCase_char :: "char \<Rightarrow> char" where
  "toUpperCase_char c =
     (case map_of (zip ''abcdefghijklmnopqrstuvwxyz'' ''ABCDEFGHIJKLMNOPQRSTUVWXYZ'') c of
        Some u \<Rightarrow> u
      | None \<Rightarrow> c)"

definition toUpperCase :: "string \<Rightarrow> string" where
  "toUpperCase s = map toUpperCase_char s"



text \<open>
  The relational operator \<open><\<close> on two strings: lexicographic on the code units, a proper
  prefix being smaller.
\<close>

fun string_less :: "string \<Rightarrow> string \<Rightarrow> bool" where
  "string_less [] [] = False"
| "string_less [] (y # ys) = True"
| "string_less (x # xs) [] = False"
| "string_less (x # xs) (y # ys) =
     (if (of_char x :: nat) < of_char y then True
      else if (of_char y :: nat) < of_char x then False
      else string_less xs ys)"

text \<open>\<open>Array.prototype.slice(-n)\<close>: the last \<open>n\<close> elements, the whole array when it is
  shorter.\<close>

definition slice_last :: "nat \<Rightarrow> 'a list \<Rightarrow> 'a list" where
  "slice_last n xs = drop (length xs - n) xs"

section \<open>Session registry\<close>

text \<open>What the service throws: \<open>new Error(message)\<close>, or the error object the hosted
  store's client handed back.\<close>

datatype js_error = Error string | StoreError string

subsection \<open>Local registry (the branch \<open>isMock\<close>)\<close>

text \<open>
  \<open>createSharedSession\<close>, local branch. \<open>uuid\<close> is what \<open>crypto.randomUUID()\<close> returns,
  \<open>now_created\<close> the clock read by \<open>new Date()\<close> for \<open>created_at\<close> and \<open>now_expires\<close>
  the clock read by \<open>Date.now()\<close> for \<open>expires_at\<close> (two reads of the clock). The record
  is written under its share code with \<open>setItem\<close>, which replaces whatever the key held.
\<close>

definition createSharedSession_mock ::
  "localStorage \<Rightarrow> string \<Rightarrow> (nat \<Rightarrow> real) \<Rightarrow> string \<Rightarrow> int \<Rightarrow> int \<Rightarrow> string \<Rightarrow> permission
     \<Rightarrow> SharedSession \<times> localStorage" where
  "createSharedSession_mock ls userId rnd uuid now_created now_expires sessionId perms =
     (let shareCode = generateShareCode rnd;
          mockSession = \<lparr> id_session = uuid,
                          session_id = sessionId,
                          share_code = shareCode,
                          host_user_id = Some userId,
                          guest_user_id = None,
                          permissions = perms,
                          is_active = True,
                          connected_at = None,
                          created_at_session = now_created,
                          expires_at = now_expires + 24 * 60 * 60 * 1000 \<rparr>
      in (mockSession,
          ls\<lparr>shared_session_items := (shared_session_items ls)(shareCode \<mapsto> mockSession)\<rparr>))"

text \<open>\<open>joinSharedSession\<close>, local branch; \<open>now\<close> is the clock at the join.\<close>

definition joinSharedSession_mock ::
  "localStorage \<Rightarrow> string \<Rightarrow> int \<Rightarrow> string \<Rightarrow> js_error + SharedSession \<times> localStorage" where
  "joinSharedSession_mock ls userId now shareCode =
     (let sessionKey = toUpperCase shareCode in
      case shared_session_items ls sessionKey of
        None \<Rightarrow> Inl (Error ''Session not found'')
      | Some session \<Rightarrow>
          if \<not> is_active session then Inl (Error ''Session is not active'')
          else
            let session' = session\<lparr>guest_user_id := Some userId, connected_at := Some now\<rparr>
            in Inr (session',
                    ls\<lparr>shared_session_items := (shared_session_items ls)(sessionKey \<mapsto> session')\<rparr>))"

text \<open>\<open>endSession\<close>, local branch: removes the event log of the session and returns;
  \<open>isHost\<close> is not read.\<close>

definition endSession_mock :: "localStorage \<Rightarrow> string \<Rightarrow> bool \<Rightarrow> localStorage" where
  "endSession_mock ls sharedSessionId isHost =
     ls\<lparr>code_sync_items := (code_sync_items ls)(sharedSessionId := None)\<rparr>"


subsection \<open>Hosted registry (the branch of the hosted store)\<close>

text \<open>
  The hosted store is an external service; the table \<open>shared_sessions\<close> is modelled as
  the list of its rows, and each request by what its query asks for. \<open>reachable\<close> says
  whether the request reaches the store. The schema of the table (the migration adding
  \<open>shared_sessions\<close>) declares \<open>share_code\<close> UNIQUE and gives the defaults of the columns
  an insert leaves out: no guest, no \<open>connected_at\<close>, \<open>created_at = now()\<close>,
  \<open>expires_at = now() + 24 hours\<close>. The message texts of the store's own errors
  stand for whatever the store reports; the service never reads them.
\<close>

type_synonym shared_sessions_table = "SharedSession list"

text \<open>The \<open>{data, error}\<close> a request resolves to.\<close>

record query_result =
  data :: "SharedSession option"
  error :: "js_error option"

text \<open>The insert of \<open>createSharedSession\<close> followed by \<open>.select().single()\<close>.\<close>

definition insert_shared_session ::
  "bool \<Rightarrow> shared_sessions_table \<Rightarrow> string \<Rightarrow> int \<Rightarrow> string \<Rightarrow> string \<Rightarrow> string \<Rightarrow> permission
     \<Rightarrow> query_result \<times> shared_sessions_table" where
  "insert_shared_session reachable table uuid now sessionId shareCode userId perms =
     (if \<not> reachable then (\<lparr>data = None, error = Some (StoreError ''fetch failed'')\<rparr>, table)
      else if shareCode \<in> set (map share_code table)
      then (\<lparr>data = None, error = Some (StoreError ''duplicate key value violates unique constraint'')\<rparr>,
            table)
      else
        let row = \<lparr> id_session = uuid,
                    session_id = sessionId,
                    share_code = shareCode,
                    host_user_id = Some userId,
                    guest_user_id = None,
                    permissions = perms,
                    is_active = True,
                    connected_at = None,
                    created_at_session = now,
                    expires_at = now + 24 * 60 * 60 * 1000 \<rparr>
        in (\<lparr>data = Some row, error = None\<rparr>, table @ [row]))"

definition createSharedSession_remote ::
  "bool \<Rightarrow> shared_sessions_table \<Rightarrow> string \<Rightarrow> (nat \<Rightarrow> real) \<Rightarrow> string \<Rightarrow> int \<Rightarrow> string \<Rightarrow> permission
     \<Rightarrow> (js_error + SharedSession option) \<times> shared_sessions_table" where
  "createSharedSession_remote reachable table userId rnd uuid now sessionId perms =
     (let (res, table') =
            insert_shared_session reachable table uuid now sessionId (generateShareCode rnd) userId perms
      in case error res of
           Some e \<Rightarrow> (Inl e, table')
         | None \<Rightarrow> (Inr (data res), table'))"

text \<open>
  The update of \<open>joinSharedSession\<close>: the rows with the upper-cased share code and
  \<open>is_active = true\<close> get the guest, the join time and \<open>is_active = true\<close>;
  \<open>.select().single()\<close> then yields the row when exactly one row was updated, and an
  error otherwise.
\<close>

definition join_update :: "string \<Rightarrow> int \<Rightarrow> SharedSession \<Rightarrow> SharedSession" where
  "join_update userId now r =
     r\<lparr>guest_user_id := Some userId, connected_at := Some now, is_active := True\<rparr>"

definition join_matches :: "string \<Rightarrow> SharedSession \<Rightarrow> bool" where
  "join_matches shareCode r = (share_code r = toUpperCase shareCode \<and> is_active r = True)"

definition update_shared_session_join ::
  "bool \<Rightarrow> shared_sessions_table \<Rightarrow> string \<Rightarrow> int \<Rightarrow> string \<Rightarrow> query_result \<times> shared_sessions_table" where
  "update_shared_session_join reachable table userId now shareCode =
     (if \<not> reachable then (\<lparr>data = None, error = Some (StoreError ''fetch failed'')\<rparr>, table)
      else
        let table' = map (\<lambda>r. if join_matches shareCode r then join_update userId now r else r) table
        in case filter (join_matches shareCode) table of
             [r] \<Rightarrow> (\<lparr>data = Some (join_update userId now r), error = None\<rparr>, table')
           | _ \<Rightarrow> (\<lparr>data = None, error = Some (StoreError ''JSON object requested, multiple (or no) rows returned'')\<rparr>,
                   table'))"

definition joinSharedSession_remote ::
  "bool \<Rightarrow> shared_sessions_table \<Rightarrow> string \<Rightarrow> int \<Rightarrow> string
     \<Rightarrow> (js_error + SharedSession) \<times> shared_sessions_table" where
  "joinSharedSession_remote reachable table userId now shareCode =
     (let (res, table') = update_shared_session_join reachable table userId now shareCode
      in case (error res, data res) of
           (None, Some d) \<Rightarrow> (Inr d, table')
         | _ \<Rightarrow> (Inl (Error ''Session not found or no longer active''), table'))"

text \<open>\<open>endSession\<close>, hosted branch: only the host's call updates the table, and the
  result of the update is not inspected.\<close>

definition endSession_remote ::
  "bool \<Rightarrow> shared_sessions_table \<Rightarrow> string \<Rightarrow> bool \<Rightarrow> shared_sessions_table" where
  "endSession_remote reachable table sharedSessionId isHost =
     (if isHost \<and> reachable
      then map (\<lambda>r. if id_session r = sharedSessionId then r\<lparr>is_active := False\<rparr> else r) table
      else table)"

section \<open>Sync channel\<close>

text \<open>
  The callbacks a subscriber passes to \<open>subscribeToSession\<close> are optional members; the
  record says which of them are present. A callback's invocation is recorded as a value:
  the callback's name with its arguments.
\<close>

record callbacks =
  onCodeChange :: bool
  onLanguageChange :: bool
  onCursorChange :: bool
  onGuestJoin :: bool
  onGuestLeave :: bool

datatype callback_call =
    OnCodeChange string string
  | OnLanguageChange string string
  | OnCursorChange int int string
  | OnGuestJoin string
  | OnGuestLeave string

text \<open>The dispatch on \<open>sync.action\<close>, written out in the realtime handler and again in
  the polling loop of the source.\<close>

definition dispatch :: "callbacks \<Rightarrow> CodeSync \<Rightarrow> callback_call list" where
  "dispatch cbs sync =
     (case action_sync sync of
        ActEdit \<Rightarrow>
          (if onCodeChange cbs then [OnCodeChange (code_content sync) (user_id sync)] else [])
      | ActLanguage \<Rightarrow>
          (if onLanguageChange cbs then [OnLanguageChange (language sync) (user_id sync)] else [])
      | ActCursor \<Rightarrow>
          (case (cursor_line sync, cursor_column sync) of
             (Some l, Some c) \<Rightarrow>
               (if onCursorChange cbs then [OnCursorChange l c (user_id sync)] else [])
           | _ \<Rightarrow> []))"

text \<open>The participant a recorded call names: the \<open>userId\<close> argument of the callback
  (the guest of \<open>onGuestJoin\<close> and \<open>onGuestLeave\<close>).\<close>

fun origin_of :: "callback_call \<Rightarrow> string" where
  "origin_of (OnCodeChange c u) = u"
| "origin_of (OnLanguageChange l u) = u"
| "origin_of (OnCursorChange l c u) = u"
| "origin_of (OnGuestJoin g) = g"
| "origin_of (OnGuestLeave g) = g"

subsection \<open>Realtime-backed channel\<close>

text \<open>The handler \<open>subscribeToSession\<close> registers for the inserts into \<open>code_sync\<close>:
  \<open>sync\<close> is \<open>payload.new\<close>, \<open>userId\<close> the subscriber's own identity.\<close>

definition realtime_handler :: "callbacks \<Rightarrow> string \<Rightarrow> CodeSync \<Rightarrow> callback_call list" where
  "realtime_handler cbs userId sync =
     (if user_id sync = userId then [] else dispatch cbs sync)"

text \<open>The platform calls the handler for the inserts that pass the subscription's filter
  \<open>shared_session_id=eq.<id>\<close>.\<close>

definition realtime_on_insert ::
  "callbacks \<Rightarrow> string \<Rightarrow> SharedSession \<Rightarrow> CodeSync \<Rightarrow> callback_call list" where
  "realtime_on_insert cbs userId sharedSession sync =
     (if shared_session_id sync = id_session sharedSession
      then realtime_handler cbs userId sync else [])"

subsection \<open>Polling-backed channel\<close>

text \<open>\<open>JSON.parse(localStorage.getItem(syncKey) || '[]')\<close>: the stored log, the empty
  log when the key is absent.\<close>

definition read_syncs :: "localStorage \<Rightarrow> string \<Rightarrow> CodeSync list" where
  "read_syncs ls sharedSessionId =
     (case code_sync_items ls sharedSessionId of None \<Rightarrow> [] | Some syncs \<Rightarrow> syncs)"

text \<open>
  The filter of one tick of \<open>startMockPolling\<close>. The test \<open>lastSyncId ? ... : ...\<close> takes
  its second branch for \<open>null\<close> and for the empty string.
\<close>

definition newSyncs :: "string \<Rightarrow> string option \<Rightarrow> CodeSync list \<Rightarrow> CodeSync list" where
  "newSyncs userId lastSyncId syncs =
     (case lastSyncId of
        None \<Rightarrow> filter (\<lambda>s. user_id s \<noteq> userId) syncs
      | Some l \<Rightarrow>
          if l = [] then filter (\<lambda>s. user_id s \<noteq> userId) syncs
          else filter (\<lambda>s. string_less l (id_sync s) \<and> user_id s \<noteq> userId) syncs)"

text \<open>The \<open>forEach\<close> over the new events: each one is dispatched and becomes the
  last-seen id. The state is the calls made so far and \<open>lastSyncId\<close>.\<close>

fun forEach_newSyncs ::
  "callbacks \<Rightarrow> CodeSync list \<Rightarrow> callback_call list \<times> string option
     \<Rightarrow> callback_call list \<times> string option" where
  "forEach_newSyncs cbs [] st = st"
| "forEach_newSyncs cbs (sync # rest) (calls, lastSyncId) =
     forEach_newSyncs cbs rest (calls @ dispatch cbs sync, Some (id_sync sync))"

text \<open>One tick of the interval (every 500 ms): the calls it makes and the new
  \<open>lastSyncId\<close>.\<close>

definition mockPolling_tick ::
  "callbacks \<Rightarrow> string \<Rightarrow> localStorage \<Rightarrow> string \<Rightarrow> string option
     \<Rightarrow> callback_call list \<times> string option" where
  "mockPolling_tick cbs userId ls sharedSessionId lastSyncId =
     forEach_newSyncs cbs (newSyncs userId lastSyncId (read_syncs ls sharedSessionId))
       ([], lastSyncId)"

text \<open>
  The three publishers, local branch. \<open>ts\<close> and \<open>r\<close> are the renderings of \<open>Date.now()\<close>
  and \<open>Math.random()\<close> in the template of the id, \<open>created\<close> the rendering of the clock for
  \<open>created_at\<close>. Each one reads the log, pushes its event and stores the last 50.
\<close>

definition push_sync :: "localStorage \<Rightarrow> string \<Rightarrow> CodeSync \<Rightarrow> localStorage" where
  "push_sync ls sharedSessionId sync =
     (let syncs = read_syncs ls sharedSessionId @ [sync]
      in ls\<lparr>code_sync_items := (code_sync_items ls)(sharedSessionId \<mapsto> slice_last 50 syncs)\<rparr>)"

definition syncCode_event ::
  "string \<Rightarrow> string \<Rightarrow> string \<Rightarrow> string \<Rightarrow> string \<Rightarrow> string \<Rightarrow> string \<Rightarrow> int option \<Rightarrow> int option
     \<Rightarrow> CodeSync" where
  "syncCode_event userId ts r created sharedSessionId code lang cursorLine cursorColumn =
     \<lparr> id_sync = ts @ ''_'' @ r,
       shared_session_id = sharedSessionId,
       user_id = userId,
       code_content = code,
       language = lang,
       cursor_line = cursorLine,
       cursor_column = cursorColumn,
       action_sync = ActEdit,
       created_at_sync = created \<rparr>"

definition syncCode_mock ::
  "localStorage \<Rightarrow> string \<Rightarrow> string \<Rightarrow> string \<Rightarrow> string \<Rightarrow> string \<Rightarrow> string \<Rightarrow> string
     \<Rightarrow> int option \<Rightarrow> int option \<Rightarrow> localStorage" where
  "syncCode_mock ls userId ts r created sharedSessionId code lang cursorLine cursorColumn =
     push_sync ls sharedSessionId
       (syncCode_event userId ts r created sharedSessionId code lang cursorLine cursorColumn)"

definition syncLanguage_event ::
  "string \<Rightarrow> string \<Rightarrow> string \<Rightarrow> string \<Rightarrow> string \<Rightarrow> string \<Rightarrow> CodeSync" where
  "syncLanguage_event userId ts r created sharedSessionId lang =
     \<lparr> id_sync = ts @ ''_'' @ r,
       shared_session_id = sharedSessionId,
       user_id = userId,
       code_content = [],
       language = lang,
       cursor_line = None,
       cursor_column = None,
       action_sync = ActLanguage,
       created_at_sync = created \<rparr>"

definition syncLanguage_mock ::
  "localStorage \<Rightarrow> string \<Rightarrow> string \<Rightarrow> string \<Rightarrow> string \<Rightarrow> string \<Rightarrow> string \<Rightarrow> localStorage" where
  "syncLanguage_mock ls userId ts r created sharedSessionId lang =
     push_sync ls sharedSessionId (syncLanguage_event userId ts r created sharedSessionId lang)"

definition syncCursor_event ::
  "string \<Rightarrow> string \<Rightarrow> string \<Rightarrow> string \<Rightarrow> string \<Rightarrow> int \<Rightarrow> int \<Rightarrow> CodeSync" where
  "syncCursor_event userId ts r created sharedSessionId line column =
     \<lparr> id_sync = ts @ ''_'' @ r,
       shared_session_id = sharedSessionId,
       user_id = userId,
       code_content = [],
       language = [],
       cursor_line = Some line,
       cursor_column = Some column,
       action_sync = ActCursor,
       created_at_sync = created \<rparr>"

definition syncCursor_mock ::
  "localStorage \<Rightarrow> string \<Rightarrow> string \<Rightarrow> string \<Rightarrow> string \<Rightarrow> string \<Rightarrow> int \<Rightarrow> int \<Rightarrow> localStorage" where
  "syncCursor_mock ls userId ts r created sharedSessionId line column =
     push_sync ls sharedSessionId (syncCursor_event userId ts r created sharedSessionId line column)"

text \<open>
  A publish on the polling-backed channel, as a value: which publisher, by whom, with
  which clock and random renderings, and its arguments. \<open>publish\<close> runs it,
  \<open>publish_all\<close> runs a sequence of them in order.
\<close>

datatype publish_call =
    SyncCode string string string string string string string "int option" "int option"
  | SyncLanguage string string string string string string
  | SyncCursor string string string string string int int

fun event_of :: "publish_call \<Rightarrow> CodeSync" where
  "event_of (SyncCode userId ts r created sid code lang cl cc) =
     syncCode_event userId ts r created sid code lang cl cc"
| "event_of (SyncLanguage userId ts r created sid lang) = syncLanguage_event userId ts r created sid lang"
| "event_of (SyncCursor userId ts r created sid line column) =
     syncCursor_event userId ts r created sid line column"

fun publish :: "localStorage \<Rightarrow> publish_call \<Rightarrow> localStorage" where
  "publish ls (SyncCode userId ts r created sid code lang cl cc) =
     syncCode_mock ls userId ts r created sid code lang cl cc"
| "publish ls (SyncLanguage userId ts r created sid lang) = syncLanguage_mock ls userId ts r created sid lang"
| "publish ls (SyncCursor userId ts r created sid line column) =
     syncCursor_mock ls userId ts r created sid line column"

fun publish_all :: "localStorage \<Rightarrow> publish_call list \<Rightarrow> localStorage" where
  "publish_all ls [] = ls"
| "publish_all ls (p # ps) = publish_all (publish ls p) ps"

section \<open>The editor component (CodeEditor)\<close>

text \<open>
  What the component asks the collaboration service to publish: \<open>syncCode(id, code,
  language)\<close> or \<open>syncLanguage(id, language)\<close>.
\<close>

datatype sync_request =
    RequestSyncCode string string string
  | RequestSyncLanguage string string

text \<open>
  The effect "Sync code changes": \<open>None\<close> when it returns early, otherwise the call its
  timer makes after the 500 ms debounce. \<open>applying\<close> is
  \<open>isApplyingRemoteChange.current\<close>; the optional property \<open>isHost\<close> is false when
  absent.
\<close>

definition codeSyncEffect ::
  "SharedSession option \<Rightarrow> bool \<Rightarrow> bool \<Rightarrow> string \<Rightarrow> string \<Rightarrow> sync_request option" where
  "codeSyncEffect sharedSession applying isHost code lang =
     (case sharedSession of
        None \<Rightarrow> None
      | Some s \<Rightarrow>
          if applying then None
          else if \<not> isHost \<and> permissions s = View then None
          else Some (RequestSyncCode (id_session s) code lang))"

text \<open>The effect "Sync language changes": the call it makes at once, if any.\<close>

definition languageSyncEffect ::
  "SharedSession option \<Rightarrow> bool \<Rightarrow> bool \<Rightarrow> string \<Rightarrow> sync_request option" where
  "languageSyncEffect sharedSession applying isHost lang =
     (case sharedSession of
        None \<Rightarrow> None
      | Some s \<Rightarrow>
          if applying then None
          else if \<not> isHost \<and> permissions s = View then None
          else Some (RequestSyncLanguage (id_session s) lang))"

text \<open>
  \<open>handleEditorChange\<close>: \<open>None\<close> when the change is discarded, otherwise the argument
  it passes to the property \<open>onCodeChange\<close> (\<open>value || ''\<close>).
\<close>

definition handleEditorChange ::
  "SharedSession option \<Rightarrow> bool \<Rightarrow> string option \<Rightarrow> string option" where
  "handleEditorChange sharedSession isHost val =
     (case sharedSession of
        Some s \<Rightarrow>
          if \<not> isHost \<and> permissions s = View then None
          else Some (case val of None \<Rightarrow> [] | Some v \<Rightarrow> v)
      | None \<Rightarrow> Some (case val of None \<Rightarrow> [] | Some v \<Rightarrow> v))"

text \<open>
  The parent's \<open>onCodeChange\<close> in the Quick Assist window (\<open>handleCodeChange\<close> of
  QuickAssistEditor), reduced to what it asks the service to publish.
\<close>

definition quickAssist_handleCodeChange ::
  "SharedSession option \<Rightarrow> string \<Rightarrow> string \<Rightarrow> sync_request list" where
  "quickAssist_handleCodeChange sharedSession lang newCode =
     (case sharedSession of
        Some s \<Rightarrow> [RequestSyncCode (id_session s) newCode lang]
      | None \<Rightarrow> [])"

text \<open>
  One local edit of the buffer, end to end: the editor widget calls
  \<open>handleEditorChange\<close>; unless the change is discarded, the parent's \<open>onCodeChange\<close>
  runs (\<open>parent\<close> gives the publish requests it makes itself) and stores the new code,
  upon which the effect "Sync code changes" runs with it.
\<close>

definition local_edit ::
  "(string \<Rightarrow> sync_request list) \<Rightarrow> SharedSession option \<Rightarrow> bool \<Rightarrow> bool \<Rightarrow> string
     \<Rightarrow> string option \<Rightarrow> sync_request list" where
  "local_edit parent sharedSession applying isHost lang val =
     (case handleEditorChange sharedSession isHost val of
        None \<Rightarrow> []
      | Some newCode \<Rightarrow>
          parent newCode
          @ (case codeSyncEffect sharedSession applying isHost newCode lang of
               None \<Rightarrow> []
             | Some c \<Rightarrow> [c]))"



section \<open>Suggestion service (lib/aiService)\<close>

text \<open>
  The kind of a request is a string at run time. The declared union has the four kinds
  \<open>completion\<close>, \<open>optimization\<close>, \<open>debug\<close> and \<open>docstring\<close>; the Quick Assist
  palette passes three more through a cast: \<open>explain\<close>, \<open>refactor\<close> and \<open>comments\<close>.
  These seven are the kinds the program passes.
\<close>

datatype requestType =
  Completion | Optimization | Debug | Docstring | Explain | Refactor | Comments

record AIRequest =
  code_request :: string
  language_request :: string
  cursorPosition :: "(int \<times> int) option"
  contextCode :: "string option"
  requestType :: requestType

record AIResponse =
  suggestion :: string
  explanation :: string
  issue_detected :: "string option"
  docstring :: "string option"
  suggestion_type :: requestType

definition newline :: string where
  "newline = [CHR 0x0A]"

text \<open>
  The table \<open>mockResponses\<close> that \<open>getMockResponse\<close> builds from the request: one entry
  for each of the four declared kinds, none for the others. The entry of \<open>completion\<close>
  (\<open>mockResponses.completion\<close>) is named, since the function reads it twice.
\<close>

definition mockResponses_completion :: AIResponse where
  "mockResponses_completion =
     \<lparr> suggestion = ''  return result;'',
       explanation = ''Complete the function with a return statement'',
       issue_detected = None,
       docstring = None,
       suggestion_type = Completion \<rparr>"

definition mockResponses :: "AIRequest \<Rightarrow> requestType \<rightharpoonup> AIResponse" where
  "mockResponses request kind =
     (case kind of
        Completion \<Rightarrow> Some mockResponses_completion
      | Optimization \<Rightarrow> Some
          \<lparr> suggestion =
              ''// Optimized version using ''
              @ (if language_request request = ''python'' then ''list comprehension'' else ''map/filter'')
              @ newline
              @ ''const result = items.filter(x => x.active).map(x => x.value);'',
            explanation =
              ''Replaced nested loops with functional approach for better readability and performance'',
            issue_detected = Some ''Nested loops can be simplified'',
            docstring = None,
            suggestion_type = Optimization \<rparr>
      | Debug \<Rightarrow> Some
          \<lparr> suggestion =
              ''if (!array || array.length === 0) {'' @ newline
              @ ''  return null;'' @ newline
              @ ''}'',
            explanation = ''Added null and empty array checks to prevent runtime errors'',
            issue_detected = Some ''Missing validation for edge cases'',
            docstring = None,
            suggestion_type = Debug \<rparr>
      | Docstring \<Rightarrow> Some
          \<lparr> suggestion = code_request request,
            explanation = ''Generated comprehensive documentation'',
            issue_detected = None,
            docstring = Some (
              ''/**'' @ newline
              @ '' * Processes user data and returns formatted result'' @ newline
              @ '' * @param {Object} userData - The user data object'' @ newline
              @ '' * @param {string} userData.name - User's name'' @ newline
              @ '' * @param {number} userData.age - User's age'' @ newline
              @ '' * @returns {string} Formatted user information'' @ newline
              @ '' * @throws {Error} If userData is invalid'' @ newline
              @ '' */''),
            suggestion_type = Docstring \<rparr>
      | Explain \<Rightarrow> None
      | Refactor \<Rightarrow> None
      | Comments \<Rightarrow> None)"

text \<open>\<open>getMockResponse\<close>:
  \<open>mockResponses[request.requestType] || mockResponses.completion\<close>, the entry of the
  request's kind, and the entry of \<open>completion\<close> when the kind has none.\<close>

definition getMockResponse :: "AIRequest \<Rightarrow> AIResponse" where
  "getMockResponse request =
     (case mockResponses request (requestType request) of
        Some response \<Rightarrow> response
      | None \<Rightarrow> mockResponses_completion)"

text \<open>
  What the request to the backend comes to. \<open>FetchRejected\<close>: \<open>fetch\<close> rejects.
  \<open>Response ok statusText body\<close>: it resolves; the body is not JSON
  (\<open>response.json()\<close> rejects), or JSON without an indexable \<open>choices\<close>
  (\<open>data.choices[0]\<close> throws), or JSON whose \<open>data.choices[0]?.message?.content || ''\<close>
  is the given text. The messages of the errors the runtime throws stand for whatever it
  reports; the \<open>catch\<close> clause does not read them.
\<close>

datatype response_body = BodyNotJson | BodyWithoutChoices | BodyContent string

datatype fetch_result = FetchRejected | Response bool string response_body

text \<open>\<open>content.match(/\{[\s\S]*\}/)\<close>: the text from the first opening brace to the
  last closing brace after it, if there are such.\<close>

definition jsonMatch :: "string \<Rightarrow> string option" where
  "jsonMatch content =
     (let from_brace = dropWhile (\<lambda>c. c \<noteq> CHR ''{'') content in
      if from_brace = [] then None
      else
        let body = rev (dropWhile (\<lambda>c. c \<noteq> CHR ''}'') (rev (tl from_brace)))
        in if body = [] then None else Some (CHR ''{'' # body))"

text \<open>
  The body of the \<open>try\<close> block of \<open>getSuggestion\<close>: \<open>Inl\<close> is what it throws.
  \<open>parse\<close> is \<open>JSON.parse\<close> read at the type of the response (\<open>None\<close>: it throws); the
  spread \<open>{...parsed, suggestion_type}\<close> overwrites the kind.
\<close>

definition getSuggestion_try ::
  "(string \<Rightarrow> AIResponse option) \<Rightarrow> fetch_result \<Rightarrow> AIRequest \<Rightarrow> js_error + AIResponse" where
  "getSuggestion_try parse reply request =
     (case reply of
        FetchRejected \<Rightarrow> Inl (Error ''Failed to fetch'')
      | Response ok statusText body \<Rightarrow>
          if \<not> ok then Inl (Error (''OpenAI API error: '' @ statusText))
          else
            (case body of
               BodyNotJson \<Rightarrow> Inl (Error ''Unexpected token'')
             | BodyWithoutChoices \<Rightarrow> Inl (Error ''Cannot read properties of undefined'')
             | BodyContent content \<Rightarrow>
                 (case jsonMatch content of
                    Some j \<Rightarrow>
                      (case parse j of
                         None \<Rightarrow> Inl (Error ''Unexpected token'')
                       | Some parsed \<Rightarrow> Inr (parsed\<lparr>suggestion_type := requestType request\<rparr>))
                  | None \<Rightarrow>
                      Inr \<lparr> suggestion = content,
                            explanation = ''AI generated suggestion'',
                            issue_detected = None,
                            docstring = None,
                            suggestion_type = requestType request \<rparr>)))"

text \<open>
  \<open>getSuggestion\<close>: what its promise settles to, \<open>Inl\<close> a rejection and \<open>Inr\<close> the
  response. Without an API key it answers from \<open>getMockResponse\<close>; the \<open>catch\<close> clause
  answers from \<open>getMockResponse\<close> whatever the \<open>try\<close> block threw.
\<close>

definition getSuggestion ::
  "string \<Rightarrow> (string \<Rightarrow> AIResponse option) \<Rightarrow> fetch_result \<Rightarrow> AIRequest \<Rightarrow> js_error + AIResponse" where
  "getSuggestion apiKey parse reply request =
     (if apiKey = [] then Inr (getMockResponse request)
      else case getSuggestion_try parse reply request of
             Inl e \<Rightarrow> Inr (getMockResponse request)
           | Inr response \<Rightarrow> Inr response)"

text \<open>
  The situations in which the backend gives no usable answer: no API key, a request that
  fails, a response that is not OK, or a response that cannot be parsed.
\<close>

definition backend_unusable ::
  "string \<Rightarrow> (string \<Rightarrow> AIResponse option) \<Rightarrow> fetch_result \<Rightarrow> bool" where
  "backend_unusable apiKey parse reply =
     (if apiKey = [] then True
      else case reply of
             FetchRejected \<Rightarrow> True
           | Response ok statusText body \<Rightarrow>
               if \<not> ok then True
               else (case body of
                       BodyNotJson \<Rightarrow> True
                     | BodyWithoutChoices \<Rightarrow> True
                     | BodyContent content \<Rightarrow>
                         (case jsonMatch content of
                            Some j \<Rightarrow> parse j = None
                          | None \<Rightarrow> False)))"

section \<open>Example values\<close>

text \<open>A view-only session as a guest holds it after joining.\<close>

definition example_session :: SharedSession where
  "example_session =
     \<lparr> id_session = ''s-1'', session_id = ''e-1'', share_code = ''AB3K9Q'',
       host_user_id = Some ''host'', guest_user_id = Some ''guest'', permissions = View,
       is_active = True, connected_at = Some 1700000000500,
       created_at_session = 1700000000000, expires_at = 1700086400000 \<rparr>"

text \<open>A subscriber that passes every callback, and a storage holding nothing.\<close>

definition all_callbacks :: callbacks where
  "all_callbacks = \<lparr> onCodeChange = True, onLanguageChange = True, onCursorChange = True,
                      onGuestJoin = True, onGuestLeave = True \<rparr>"

definition empty_storage :: localStorage where
  "empty_storage = \<lparr> shared_session_items = Map.empty, code_sync_items = Map.empty \<rparr>"

text \<open>
  The host's \<open>n\<close>-th call of \<open>syncCode\<close> in session \<open>s-1\<close> (for \<open>n < 100\<close>): the clock
  advances by one millisecond per call and the buffer is \<open>v\<close> followed by the two digits
  of \<open>n\<close>. \<open>publishes_51\<close> are the calls 0 to 50.
\<close>

definition two_digits :: "nat \<Rightarrow> string" where
  "two_digits n = [''0123456789'' ! (n div 10), ''0123456789'' ! (n mod 10)]"

definition host_publish :: "nat \<Rightarrow> publish_call" where
  "host_publish n =
     SyncCode ''host'' (''17000000000'' @ two_digits n) ''0.5'' ''2023-11-14T22:13:20.000Z''
       ''s-1'' (''v'' @ two_digits n) ''javascript'' None None"

definition publishes_51 :: "publish_call list" where
  "publishes_51 = map host_publish [0..<51]"

text \<open>
  The storage after the host's calls 0 to 49, and a further call by the host in the
  millisecond of call 49 whose random part is smaller: the 51 calls
  \<open>publishes_51_same_ms\<close> end with it.
\<close>

definition storage_after_50 :: localStorage where
  "storage_after_50 = publish_all empty_storage (map host_publish [0..<50])"

definition late_publish :: publish_call where
  "late_publish =
     SyncCode ''host'' ''1700000000049'' ''0.1'' ''2023-11-14T22:13:20.049Z''
       ''s-1'' ''v50'' ''javascript'' None None"

definition publishes_51_same_ms :: "publish_call list" where
  "publishes_51_same_ms = map host_publish [0..<50] @ [late_publish]"

text \<open>
  A change of language published by the guest, and the storage after the host, the guest
  and the host again have published, before a tick of the guest's has run.
\<close>

definition guest_publish :: publish_call where
  "guest_publish =
     SyncLanguage ''guest'' ''1700000000002'' ''0.25'' ''2023-11-14T22:13:20.002Z'' ''s-1'' ''python''"

definition storage_before_subscribing :: localStorage where
  "storage_before_subscribing =
     publish_all empty_storage [host_publish 2, guest_publish, host_publish 3]"

text \<open>
  Six draws of \<open>Math.random()\<close> that spell the share code \<open>AB3K9Q\<close>; the session a
  host creates with them on the local registry at the clock 1700000000000, and the
  storage holding it.
\<close>

definition rnd_AB3K9Q :: "nat \<Rightarrow> real" where
  "rnd_AB3K9Q i = real ([0, 1, 25, 9, 31, 14] ! i) / 32"

definition host_session :: SharedSession where
  "host_session =
     \<lparr> id_session = ''s-1'', session_id = ''e-1'', share_code = ''AB3K9Q'',
       host_user_id = Some ''host'', guest_user_id = None, permissions = Edit,
       is_active = True, connected_at = None,
       created_at_session = 1700000000000, expires_at = 1700086400000 \<rparr>"

definition storage_with_host_session :: localStorage where
  "storage_with_host_session =
     snd (createSharedSession_mock empty_storage ''host'' rnd_AB3K9Q ''s-1''
            1700000000000 1700000000000 ''e-1'' Edit)"



text \<open>The session another participant creates when its six draws spell \<open>AB3K9Q\<close>
  again.\<close>

definition other_session :: SharedSession where
  "other_session =
     \<lparr> id_session = ''s-2'', session_id = ''e-2'', share_code = ''AB3K9Q'',
       host_user_id = Some ''other'', guest_user_id = None, permissions = View,
       is_active = True, connected_at = None,
       created_at_session = 1700000005000, expires_at = 1700086405000 \<rparr>"

text \<open>The storage after the host has published its first edit into its session.\<close>

definition storage_while_hosting :: localStorage where
  "storage_while_hosting = publish storage_with_host_session (host_publish 2)"

section \<open>Properties of the share-code generator\<close>

lemma length_chars: "length chars = 32"
  by (simp add: chars_def)

lemma charAt_chars_in_range:
  assumes "0 \<le> r" and "r < 1"
  shows "\<exists>c. charAt chars \<lfloor>r * real (length chars)\<rfloor> = [c] \<and> c \<in> set chars"
proof -
  have lo: "0 \<le> \<lfloor>r * 32\<rfloor>" using assms by simp
  have "r * 32 < 32" using assms by simp
  then have hi: "\<lfloor>r * 32\<rfloor> < 32" by (simp add: floor_less_iff)
  from lo hi have "nat \<lfloor>r * 32\<rfloor> < length chars" by (simp add: length_chars nat_less_iff)
  then have "chars ! nat \<lfloor>r * 32\<rfloor> \<in> set chars" by (rule nth_mem)
  with lo hi show ?thesis by (simp add: charAt_def length_chars)
qed

lemma generateShareCode_loop_shape:
  assumes "\<forall>j. i \<le> j \<and> j < 6 \<longrightarrow> 0 \<le> rnd j \<and> rnd j < 1" and "i \<le> 6"
  shows "length (generateShareCode_loop rnd i code) = length code + (6 - i)
       \<and> set (generateShareCode_loop rnd i code) \<subseteq> set code \<union> set chars"
  using assms
proof (induction rnd i code rule: generateShareCode_loop.induct)
  case (1 rnd i code)
  show ?case
  proof (cases "i < 6")
    case False
    with "1.prems" show ?thesis by simp
  next
    case True
    with "1.prems" have "0 \<le> rnd i" and "rnd i < 1" by auto
    then obtain c where c: "charAt chars \<lfloor>rnd i * real (length chars)\<rfloor> = [c]" "c \<in> set chars"
      using charAt_chars_in_range by blast
    have "\<forall>j. i + 1 \<le> j \<and> j < 6 \<longrightarrow> 0 \<le> rnd j \<and> rnd j < 1"
      using "1.prems" by auto
    moreover have "i + 1 \<le> 6" using True by simp
    ultimately have IH:
      "length (generateShareCode_loop rnd (i + 1) (code @ [c])) = length (code @ [c]) + (6 - (i + 1))
       \<and> set (generateShareCode_loop rnd (i + 1) (code @ [c])) \<subseteq> set (code @ [c]) \<union> set chars"
      using "1.IH"[OF True] c(1) by simp
    have step: "generateShareCode_loop rnd i code = generateShareCode_loop rnd (i + 1) (code @ [c])"
      using True c(1) by (subst generateShareCode_loop.simps) simp
    from IH c(2) True show ?thesis unfolding step by auto
  qed
qed

text \<open>
  C9. Whatever \<open>Math.random()\<close> returns in [0, 1), the generated share code has exactly
  6 characters, each of them a character of the alphabet \<open>chars\<close>; the alphabet has 32
  distinct characters and contains none of 0, O, 1 and I.
\<close>

theorem generateShareCode_alphabet:
  assumes "\<forall>i. i < 6 \<longrightarrow> 0 \<le> rnd i \<and> rnd i < 1"
  shows "length (generateShareCode rnd) = 6
       \<and> set (generateShareCode rnd) \<subseteq> set chars
       \<and> chars = ''ABCDEFGHJKLMNPQRSTUVWXYZ23456789''
       \<and> length chars = 32 \<and> distinct chars
       \<and> CHR ''0'' \<notin> set chars \<and> CHR ''O'' \<notin> set chars
       \<and> CHR ''1'' \<notin> set chars \<and> CHR ''I'' \<notin> set chars"
proof -
  have "length (generateShareCode_loop rnd 0 []) = length ([]::string) + (6 - 0)
      \<and> set (generateShareCode_loop rnd 0 []) \<subseteq> set ([]::string) \<union> set chars"
    by (rule generateShareCode_loop_shape) (use assms in auto)
  moreover have "distinct chars" by (simp add: chars_def)
  moreover have "CHR ''0'' \<notin> set chars \<and> CHR ''O'' \<notin> set chars
      \<and> CHR ''1'' \<notin> set chars \<and> CHR ''I'' \<notin> set chars"
    by (simp add: chars_def)
  ultimately show ?thesis
    by (simp add: generateShareCode_def length_chars) (simp add: chars_def)
qed

theorem generateShareCode_alphabet_witness:
  "generateShareCode (\<lambda>i::nat. (1::real) / 2) = ''SSSSSS''
   \<and> length (generateShareCode (\<lambda>i::nat. (1::real) / 2)) = 6
   \<and> set (generateShareCode (\<lambda>i::nat. (1::real) / 2)) \<subseteq> set chars"
proof -
  have h: "\<forall>i::nat. i < 6 \<longrightarrow> (0::real) \<le> (\<lambda>i::nat. (1::real) / 2) i \<and> (\<lambda>i::nat. (1::real) / 2) i < 1"
    by simp
  have e: "generateShareCode (\<lambda>i::nat. (1::real) / 2) = ''SSSSSS''"
    by (simp add: generateShareCode_def charAt_def chars_def)
  from generateShareCode_alphabet [OF h] e show ?thesis by simp
qed

section \<open>Properties of the suggestion service\<close>

lemma getSuggestion_try_type:
  "getSuggestion_try parse reply request = Inr response
     \<Longrightarrow> suggestion_type response = requestType request"
  by (auto simp: getSuggestion_try_def
           split: fetch_result.splits response_body.splits option.splits if_splits)

lemma getSuggestion_try_unusable:
  "apiKey \<noteq> [] \<Longrightarrow> backend_unusable apiKey parse reply
     \<Longrightarrow> \<exists>e. getSuggestion_try parse reply request = Inl e"
  by (auto simp: getSuggestion_try_def backend_unusable_def
           split: fetch_result.splits response_body.splits option.splits if_splits)

lemma getSuggestion_resolves:
  "\<exists>response. getSuggestion apiKey parse reply request = Inr response
      \<and> (backend_unusable apiKey parse reply \<longrightarrow> response = getMockResponse request)
      \<and> (\<not> backend_unusable apiKey parse reply
            \<longrightarrow> suggestion_type response = requestType request)"
proof (cases "apiKey = []")
  case True
  then show ?thesis by (simp add: getSuggestion_def backend_unusable_def)
next
  case False
  show ?thesis
  proof (cases "getSuggestion_try parse reply request")
    case (Inl e)
    with False show ?thesis
      by (auto simp: getSuggestion_def getSuggestion_try_def backend_unusable_def
               split: fetch_result.splits response_body.splits option.splits if_splits)
  next
    case (Inr response)
    then have "suggestion_type response = requestType request"
      by (rule getSuggestion_try_type)
    moreover have "\<not> backend_unusable apiKey parse reply"
      using getSuggestion_try_unusable [OF False, of parse reply request] Inr by auto
    ultimately show ?thesis using False Inr by (simp add: getSuggestion_def)
  qed
qed

lemma getMockResponse_table:
  "getMockResponse request =
     (case requestType request of
        Optimization \<Rightarrow>
          \<lparr> suggestion =
              ''// Optimized version using ''
              @ (if language_request request = ''python'' then ''list comprehension'' else ''map/filter'')
              @ [CHR 0x0A]
              @ ''const result = items.filter(x => x.active).map(x => x.value);'',
            explanation =
              ''Replaced nested loops with functional approach for better readability and performance'',
            issue_detected = Some ''Nested loops can be simplified'',
            docstring = None,
            suggestion_type = Optimization \<rparr>
      | Debug \<Rightarrow>
          \<lparr> suggestion =
              ''if (!array || array.length === 0) {'' @ [CHR 0x0A]
              @ ''  return null;'' @ [CHR 0x0A]
              @ ''}'',
            explanation = ''Added null and empty array checks to prevent runtime errors'',
            issue_detected = Some ''Missing validation for edge cases'',
            docstring = None,
            suggestion_type = Debug \<rparr>
      | Docstring \<Rightarrow>
          \<lparr> suggestion = code_request request,
            explanation = ''Generated comprehensive documentation'',
            issue_detected = None,
            docstring = Some (
              ''/**'' @ [CHR 0x0A]
              @ '' * Processes user data and returns formatted result'' @ [CHR 0x0A]
              @ '' * @param {Object} userData - The user data object'' @ [CHR 0x0A]
              @ '' * @param {string} userData.name - User's name'' @ [CHR 0x0A]
              @ '' * @param {number} userData.age - User's age'' @ [CHR 0x0A]
              @ '' * @returns {string} Formatted user information'' @ [CHR 0x0A]
              @ '' * @throws {Error} If userData is invalid'' @ [CHR 0x0A]
              @ '' */''),
            suggestion_type = Docstring \<rparr>
      | _ \<Rightarrow>
          \<lparr> suggestion = ''  return result;'',
            explanation = ''Complete the function with a return statement'',
            issue_detected = None,
            docstring = None,
            suggestion_type = Completion \<rparr>)"
  by (cases "requestType request")
     (simp_all add: getMockResponse_def mockResponses_def mockResponses_completion_def newline_def)

text \<open>
  C8 (as amended). For every request, API key, backend reply and JSON parser,
  \<open>getSuggestion\<close> settles to a response and never to a rejection. When there is no API
  key, the request fails, the response is not OK or it cannot be parsed, the response is
  the canned one: for the kinds optimization, debug and docstring the canned response of
  that kind, and for every other kind (completion, and the kinds explain, refactor and
  comments, which have no entry) the canned response of completion; its
  \<open>suggestion_type\<close> is the kind of the canned response returned. When the backend
  answers usably, the response carries the kind of the request.
\<close>

theorem getSuggestion_never_raises:
  "\<exists>response. getSuggestion apiKey parse reply request = Inr response
      \<and> (\<not> backend_unusable apiKey parse reply
            \<longrightarrow> suggestion_type response = requestType request)
      \<and> (backend_unusable apiKey parse reply \<longrightarrow>
           response =
             (case requestType request of
                Optimization \<Rightarrow>
                  \<lparr> suggestion =
                      ''// Optimized version using ''
                      @ (if language_request request = ''python''
                         then ''list comprehension'' else ''map/filter'')
                      @ [CHR 0x0A]
                      @ ''const result = items.filter(x => x.active).map(x => x.value);'',
                    explanation =
                      ''Replaced nested loops with functional approach for better readability and performance'',
                    issue_detected = Some ''Nested loops can be simplified'',
                    docstring = None,
                    suggestion_type = Optimization \<rparr>
              | Debug \<Rightarrow>
                  \<lparr> suggestion =
                      ''if (!array || array.length === 0) {'' @ [CHR 0x0A]
                      @ ''  return null;'' @ [CHR 0x0A]
                      @ ''}'',
                    explanation = ''Added null and empty array checks to prevent runtime errors'',
                    issue_detected = Some ''Missing validation for edge cases'',
                    docstring = None,
                    suggestion_type = Debug \<rparr>
              | Docstring \<Rightarrow>
                  \<lparr> suggestion = code_request request,
                    explanation = ''Generated comprehensive documentation'',
                    issue_detected = None,
                    docstring = Some (
                      ''/**'' @ [CHR 0x0A]
                      @ '' * Processes user data and returns formatted result'' @ [CHR 0x0A]
                      @ '' * @param {Object} userData - The user data object'' @ [CHR 0x0A]
                      @ '' * @param {string} userData.name - User's name'' @ [CHR 0x0A]
                      @ '' * @param {number} userData.age - User's age'' @ [CHR 0x0A]
                      @ '' * @returns {string} Formatted user information'' @ [CHR 0x0A]
                      @ '' * @throws {Error} If userData is invalid'' @ [CHR 0x0A]
                      @ '' */''),
                    suggestion_type = Docstring \<rparr>
              | _ \<Rightarrow>
                  \<lparr> suggestion = ''  return result;'',
                    explanation = ''Complete the function with a return statement'',
                    issue_detected = None,
                    docstring = None,
                    suggestion_type = Completion \<rparr>))"
proof -
  from getSuggestion_resolves [of apiKey parse reply request]
  obtain response where
    r: "getSuggestion apiKey parse reply request = Inr response"
       "backend_unusable apiKey parse reply \<longrightarrow> response = getMockResponse request"
       "\<not> backend_unusable apiKey parse reply
          \<longrightarrow> suggestion_type response = requestType request"
    by blast
  show ?thesis
    by (rule exI [of _ response], intro conjI)
       (rule r(1), rule r(3), rule r(2) [unfolded getMockResponse_table])
qed

theorem getSuggestion_never_raises_witness:
  "backend_unusable ''sk-test'' Map.empty (Response False ''Too Many Requests'' BodyNotJson)
   \<and> getSuggestion ''sk-test'' Map.empty (Response False ''Too Many Requests'' BodyNotJson)
        \<lparr> code_request = ''xs.map(f)'', language_request = ''python'', cursorPosition = None,
          contextCode = None, requestType = Debug \<rparr>
      = Inr \<lparr> suggestion =
                ''if (!array || array.length === 0) {'' @ [CHR 0x0A]
                @ ''  return null;'' @ [CHR 0x0A]
                @ ''}'',
              explanation = ''Added null and empty array checks to prevent runtime errors'',
              issue_detected = Some ''Missing validation for edge cases'',
              docstring = None,
              suggestion_type = Debug \<rparr>"
proof -
  let ?req = "\<lparr> code_request = ''xs.map(f)'', language_request = ''python'', cursorPosition = None,
                 contextCode = None, requestType = Debug \<rparr>"
  let ?reply = "Response False ''Too Many Requests'' BodyNotJson"
  have u: "backend_unusable ''sk-test'' Map.empty ?reply"
    by (simp add: backend_unusable_def)
  from getSuggestion_never_raises [of "''sk-test''" Map.empty ?reply ?req] u
  show ?thesis by auto
qed

text \<open>
  C8 as stated fails for a kind without a canned entry: without an API key, a request of
  kind explain is answered with the canned response of completion, whose
  \<open>suggestion_type\<close> is completion and not the kind of the request.
\<close>

theorem explain_falls_back_to_completion:
  "requestType \<lparr> code_request = ''xs.map(f)'', language_request = ''python'',
                 cursorPosition = None, contextCode = None, requestType = Explain \<rparr> = Explain
   \<and> mockResponses \<lparr> code_request = ''xs.map(f)'', language_request = ''python'',
                 cursorPosition = None, contextCode = None, requestType = Explain \<rparr> Explain = None
   \<and> getSuggestion [] Map.empty FetchRejected
        \<lparr> code_request = ''xs.map(f)'', language_request = ''python'', cursorPosition = None,
          contextCode = None, requestType = Explain \<rparr>
      = Inr \<lparr> suggestion = ''  return result;'',
              explanation = ''Complete the function with a return statement'',
              issue_detected = None,
              docstring = None,
              suggestion_type = Completion \<rparr>
   \<and> Completion \<noteq> Explain"
  by (simp add: getSuggestion_def getMockResponse_def mockResponses_def mockResponses_completion_def)

section \<open>Properties of the editor component\<close>

text \<open>
  The gate of the editor component. For a guest (\<open>isHost\<close> false) in a shared session
  whose permission is \<open>view\<close>: the editor-change handler discards every change, the
  effect that syncs code and the effect that syncs the language make no call to
  \<open>syncCode\<close> or \<open>syncLanguage\<close>, and a local edit of the buffer results in no
  publish request at all, whatever the parent's \<open>onCodeChange\<close> would publish if it
  were called.
\<close>

lemma view_guest_never_publishes:
  assumes "permissions s = View"
  shows "handleEditorChange (Some s) False val = None
       \<and> codeSyncEffect (Some s) applying False c lang = None
       \<and> languageSyncEffect (Some s) applying False lang = None
       \<and> local_edit parent (Some s) applying False lang val = []"
  using assms
  by (simp add: handleEditorChange_def codeSyncEffect_def languageSyncEffect_def local_edit_def)

lemma view_guest_never_publishes_example:
  "permissions example_session = View
   \<and> quickAssist_handleCodeChange (Some example_session) ''javascript'' ''let x=1;''
       = [RequestSyncCode ''s-1'' ''let x=1;'' ''javascript'']
   \<and> handleEditorChange (Some example_session) False (Some ''let x=1;'') = None
   \<and> codeSyncEffect (Some example_session) False False ''let x=1;'' ''javascript'' = None
   \<and> languageSyncEffect (Some example_session) False False ''javascript'' = None
   \<and> local_edit (quickAssist_handleCodeChange (Some example_session) ''javascript'')
        (Some example_session) False False ''javascript'' (Some ''let x=1;'') = []"
proof -
  have h: "permissions example_session = View" by (simp add: example_session_def)
  have q: "quickAssist_handleCodeChange (Some example_session) ''javascript'' ''let x=1;''
       = [RequestSyncCode ''s-1'' ''let x=1;'' ''javascript'']"
    by (simp add: quickAssist_handleCodeChange_def example_session_def)
  from view_guest_never_publishes [OF h, of "Some ''let x=1;''" False "''let x=1;''" "''javascript''"
      "quickAssist_handleCodeChange (Some example_session) ''javascript''"] h q
  show ?thesis by simp
qed


section \<open>Properties of the sync channel\<close>

lemma length_slice_last: "length (slice_last n xs) \<le> n"
  by (simp add: slice_last_def)

lemma slice_last_snoc_last: "0 < n \<Longrightarrow> last (slice_last n (xs @ [x])) = x"
  by (simp add: slice_last_def)

lemma slice_last_suffix: "\<exists>dropped. dropped @ slice_last n xs = xs"
  unfolding slice_last_def by (metis append_take_drop_id)

lemma slice_last_append: "slice_last n (slice_last n xs @ ys) = slice_last n (xs @ ys)"
proof (cases "length xs \<le> n")
  case True
  then show ?thesis by (simp add: slice_last_def)
next
  case False
  define k where "k = length xs - n"
  have k: "k \<le> length xs" "length xs - k = n" using False by (simp_all add: k_def)
  have "slice_last n (slice_last n xs @ ys) = drop (length ys) (drop k xs @ ys)"
    using k by (simp add: slice_last_def k_def)
  also have "\<dots> = drop (length ys) (drop k (xs @ ys))" using k by simp
  also have "\<dots> = drop (length ys + k) (xs @ ys)" by (simp only: drop_drop)
  also have "length ys + k = length (xs @ ys) - n" using False by (simp add: k_def)
  finally show ?thesis by (simp add: slice_last_def)
qed

lemma read_syncs_push_sync:
  "read_syncs (push_sync ls sid sync) sid' =
     (if sid' = sid then slice_last 50 (read_syncs ls sid @ [sync]) else read_syncs ls sid')"
  by (simp add: push_sync_def read_syncs_def Let_def)

lemma shared_session_id_event_of_cases:
  "publish ls p = push_sync ls (shared_session_id (event_of p)) (event_of p)"
  by (cases p)
     (simp_all add: syncCode_mock_def syncLanguage_mock_def syncCursor_mock_def
        syncCode_event_def syncLanguage_event_def syncCursor_event_def)

lemma read_syncs_publish:
  "read_syncs (publish ls p) sid =
     (if shared_session_id (event_of p) = sid
      then slice_last 50 (read_syncs ls sid @ [event_of p]) else read_syncs ls sid)"
  by (auto simp: shared_session_id_event_of_cases read_syncs_push_sync)

lemma read_syncs_publish_all:
  "\<forall>p \<in> set ps. shared_session_id (event_of p) = sid \<Longrightarrow> ps \<noteq> [] \<Longrightarrow>
   read_syncs (publish_all ls ps) sid = slice_last 50 (read_syncs ls sid @ map event_of ps)"
proof (induction ps arbitrary: ls)
  case Nil
  then show ?case by simp
next
  case (Cons p ps)
  show ?case
  proof (cases "ps = []")
    case True
    with Cons.prems show ?thesis by (simp add: read_syncs_publish)
  next
    case False
    with Cons have "read_syncs (publish_all (publish ls p) ps) sid
        = slice_last 50 (read_syncs (publish ls p) sid @ map event_of ps)" by simp
    also have "\<dots> = slice_last 50 (slice_last 50 (read_syncs ls sid @ [event_of p]) @ map event_of ps)"
      using Cons.prems by (simp add: read_syncs_publish)
    also have "\<dots> = slice_last 50 ((read_syncs ls sid @ [event_of p]) @ map event_of ps)"
      by (rule slice_last_append)
    finally show ?thesis by simp
  qed
qed

lemma forEach_newSyncs_eq:
  "forEach_newSyncs cbs xs (calls, cur) =
     (calls @ concat (map (dispatch cbs) xs),
      if xs = [] then cur else Some (id_sync (last xs)))"
  by (induction xs arbitrary: calls cur) auto

lemma mockPolling_tick_eq:
  "mockPolling_tick cbs userId ls sid cur =
     (concat (map (dispatch cbs) (newSyncs userId cur (read_syncs ls sid))),
      if newSyncs userId cur (read_syncs ls sid) = [] then cur
      else Some (id_sync (last (newSyncs userId cur (read_syncs ls sid)))))"
  by (simp add: mockPolling_tick_def forEach_newSyncs_eq)

lemma newSyncs_snoc:
  assumes "user_id e \<noteq> u" and "case cur of None \<Rightarrow> True | Some l \<Rightarrow> l = [] \<or> string_less l (id_sync e)"
  shows "newSyncs u cur (xs @ [e]) = newSyncs u cur xs @ [e]"
  using assms by (auto simp: newSyncs_def split: option.splits)

text \<open>
  C4 (as amended). On the polling-backed channel every publisher appends its event and
  stores the last 50 entries. So after any non-empty sequence of publishes into a session the log is
  the last 50 entries of the old log followed by the published events: it has at most 50
  entries, its last entry is the event published last, and what is missing are oldest
  entries. A subscriber other than the origin of the latest event, whose cursor is unset
  or below the latest event's id, is handed the latest event by its next tick, as the
  last one, and its cursor becomes that event's id.
\<close>

theorem publish_keeps_latest_50:
  assumes "ps \<noteq> []"
      and "\<forall>p \<in> set ps. shared_session_id (event_of p) = sid"
      and "user_id (event_of (last ps)) \<noteq> subscriber"
      and "case cur of None \<Rightarrow> True | Some l \<Rightarrow> l = [] \<or> string_less l (id_sync (event_of (last ps)))"
  shows "read_syncs (publish_all ls ps) sid = slice_last 50 (read_syncs ls sid @ map event_of ps)
       \<and> length (read_syncs (publish_all ls ps) sid) \<le> 50
       \<and> last (read_syncs (publish_all ls ps) sid) = event_of (last ps)
       \<and> (\<exists>dropped. dropped @ read_syncs (publish_all ls ps) sid
                       = read_syncs ls sid @ map event_of ps)
       \<and> (\<exists>earlier. fst (mockPolling_tick cbs subscriber (publish_all ls ps) sid cur)
                       = earlier @ dispatch cbs (event_of (last ps)))
       \<and> snd (mockPolling_tick cbs subscriber (publish_all ls ps) sid cur)
           = Some (id_sync (event_of (last ps)))"
proof -
  let ?log = "read_syncs (publish_all ls ps) sid"
  let ?e = "event_of (last ps)"
  have eq: "?log = slice_last 50 (read_syncs ls sid @ map event_of ps)"
    using assms(1,2) by (simp add: read_syncs_publish_all)
  have len: "length ?log \<le> 50" unfolding eq by (rule length_slice_last)
  have "map event_of ps = map event_of (butlast ps @ [last ps])"
    using assms(1) by simp
  then have "read_syncs ls sid @ map event_of ps = (read_syncs ls sid @ map event_of (butlast ps)) @ [?e]"
    by (simp only: map_append list.map append_assoc)
  then have eq': "?log = slice_last 50 ((read_syncs ls sid @ map event_of (butlast ps)) @ [?e])"
    using eq by simp
  have lst: "last ?log = ?e" unfolding eq' by (rule slice_last_snoc_last) simp
  have ne: "?log \<noteq> []" unfolding eq' by (simp add: slice_last_def)
  have suff: "\<exists>dropped. dropped @ ?log = read_syncs ls sid @ map event_of ps"
    unfolding eq by (rule slice_last_suffix)
  from ne lst have split: "?log = butlast ?log @ [?e]"
    by (metis append_butlast_last_id)
  have ns: "newSyncs subscriber cur ?log = newSyncs subscriber cur (butlast ?log) @ [?e]"
    by (subst split) (rule newSyncs_snoc [OF assms(3,4)])
  have calls: "\<exists>earlier. fst (mockPolling_tick cbs subscriber (publish_all ls ps) sid cur)
                       = earlier @ dispatch cbs ?e"
    by (simp add: mockPolling_tick_eq ns)
  have cursor: "snd (mockPolling_tick cbs subscriber (publish_all ls ps) sid cur) = Some (id_sync ?e)"
    by (simp add: mockPolling_tick_eq ns)
  from eq len lst suff calls cursor show ?thesis by blast
qed

lemma publishes_51_props:
  "publishes_51 \<noteq> []" "length publishes_51 = 51" "last publishes_51 = host_publish 50"
  "\<forall>p \<in> set publishes_51. shared_session_id (event_of p) = ''s-1''"
  by (simp_all add: publishes_51_def host_publish_def syncCode_event_def last_map)

theorem publish_keeps_latest_50_witness:
  "length publishes_51 = 51
   \<and> length (read_syncs (publish_all empty_storage publishes_51) ''s-1'') \<le> 50
   \<and> last (read_syncs (publish_all empty_storage publishes_51) ''s-1'') = event_of (host_publish 50)
   \<and> (\<exists>earlier. fst (mockPolling_tick all_callbacks ''guest''
                        (publish_all empty_storage publishes_51) ''s-1'' None)
                 = earlier @ [OnCodeChange ''v50'' ''host''])"
proof -
  have h3: "user_id (event_of (last publishes_51)) \<noteq> ''guest''"
    by (simp add: publishes_51_props host_publish_def syncCode_event_def)
  have h4: "case None of None \<Rightarrow> True
            | Some l \<Rightarrow> l = [] \<or> string_less l (id_sync (event_of (last publishes_51)))"
    by simp
  have d: "dispatch all_callbacks (event_of (host_publish 50)) = [OnCodeChange ''v50'' ''host'']"
    by (simp add: dispatch_def all_callbacks_def host_publish_def syncCode_event_def two_digits_def)
  note t = publish_keeps_latest_50 [OF publishes_51_props(1) publishes_51_props(4) h3 h4,
        of empty_storage all_callbacks, unfolded publishes_51_props(3) d]
  from t have a: "length (read_syncs (publish_all empty_storage publishes_51) ''s-1'') \<le> 50"
    by blast
  from t have b: "last (read_syncs (publish_all empty_storage publishes_51) ''s-1'')
      = event_of (host_publish 50)"
    by blast
  from t have c: "\<exists>earlier. fst (mockPolling_tick all_callbacks ''guest''
                        (publish_all empty_storage publishes_51) ''s-1'' None)
                 = earlier @ [OnCodeChange ''v50'' ''host'']"
    by blast
  from a b c publishes_51_props(2) show ?thesis by blast
qed

text \<open>
  C4 as stated fails in its last part: after 51 publishes the latest event is the last
  entry of the log, yet a subscriber does not observe it when its cursor is not below
  the event's id (the guest has applied call 49 and the latest call carries the same
  millisecond with a smaller random part), nor when the subscriber's identity is the
  origin of the event.
\<close>

theorem latest_of_51_not_observed:
  "length publishes_51_same_ms = 51
   \<and> last (read_syncs (publish_all empty_storage publishes_51_same_ms) ''s-1'')
       = event_of late_publish
   \<and> user_id (event_of late_publish) \<noteq> ''guest''
   \<and> snd (mockPolling_tick all_callbacks ''guest'' storage_after_50 ''s-1'' None)
       = Some ''1700000000049_0.5''
   \<and> mockPolling_tick all_callbacks ''guest''
         (publish_all empty_storage publishes_51_same_ms) ''s-1'' (Some ''1700000000049_0.5'')
       = ([], Some ''1700000000049_0.5'')
   \<and> mockPolling_tick all_callbacks ''host''
         (publish_all empty_storage publishes_51) ''s-1'' None
       = ([], None)"
  by code_simp

lemma dispatch_origin: "c \<in> set (dispatch cbs s) \<Longrightarrow> origin_of c = user_id s"
  by (auto simp: dispatch_def split: action.splits option.splits if_splits)

lemma dispatch_event_of:
  "onCodeChange cbs \<Longrightarrow> onLanguageChange cbs \<Longrightarrow> onCursorChange cbs
     \<Longrightarrow> \<exists>c. dispatch cbs (event_of p) = [c] \<and> origin_of c = user_id (event_of p)"
  by (cases p)
     (simp_all add: dispatch_def syncCode_event_def syncLanguage_event_def syncCursor_event_def)

lemma newSyncs_not_self: "s \<in> set (newSyncs userId cur syncs) \<Longrightarrow> user_id s \<noteq> userId"
  by (auto simp: newSyncs_def split: option.splits if_splits)

lemma newSyncs_filter:
  "newSyncs userId cur syncs =
     filter (\<lambda>s. user_id s \<noteq> userId
                \<and> (case cur of None \<Rightarrow> True | Some l \<Rightarrow> l = [] \<or> string_less l (id_sync s))) syncs"
  by (auto simp: newSyncs_def split: option.splits intro: filter_cong)

lemma id_sync_event_of_nonempty: "id_sync (event_of p) \<noteq> []"
  by (cases p) (simp_all add: syncCode_event_def syncLanguage_event_def syncCursor_event_def)

text \<open>
  C1 (as amended). A subscriber never has a callback invoked for an event whose origin
  is its own identity, on the realtime-backed and on the polling-backed channel. On the
  realtime-backed channel the handler of any other subscriber dispatches the event, and
  an event made by one of the publishers then invokes exactly one callback (when the
  subscriber passed the callbacks). On the polling-backed channel a tick delivers, in log
  order, exactly the events retained in the log whose origin differs from the subscriber
  and whose id is lexicographically greater than the cursor, when the cursor is set.
\<close>

theorem echo_suppression_per_channel:
  "realtime_on_insert cbs (user_id sync) sharedSession sync = []
   \<and> (\<forall>c \<in> set (realtime_on_insert cbs userId sharedSession sync). origin_of c \<noteq> userId)
   \<and> (\<forall>c \<in> set (fst (mockPolling_tick cbs userId ls sid cur)). origin_of c \<noteq> userId)
   \<and> (shared_session_id sync = id_session sharedSession \<and> user_id sync \<noteq> userId
      \<longrightarrow> realtime_on_insert cbs userId sharedSession sync = dispatch cbs sync)
   \<and> (onCodeChange cbs \<and> onLanguageChange cbs \<and> onCursorChange cbs
        \<and> shared_session_id (event_of p) = id_session sharedSession
        \<and> user_id (event_of p) \<noteq> userId
      \<longrightarrow> (\<exists>c. realtime_on_insert cbs userId sharedSession (event_of p) = [c]
               \<and> origin_of c = user_id (event_of p)))
   \<and> fst (mockPolling_tick cbs userId ls sid cur)
       = concat (map (dispatch cbs)
           (filter (\<lambda>s. user_id s \<noteq> userId
                       \<and> (case cur of None \<Rightarrow> True
                          | Some l \<Rightarrow> l = [] \<or> string_less l (id_sync s)))
              (read_syncs ls sid)))"
proof -
  have a: "realtime_on_insert cbs (user_id sync) sharedSession sync = []"
    by (simp add: realtime_on_insert_def realtime_handler_def)
  have b: "\<forall>c \<in> set (realtime_on_insert cbs userId sharedSession sync). origin_of c \<noteq> userId"
    by (auto simp: realtime_on_insert_def realtime_handler_def dest: dispatch_origin)
  have c: "\<forall>c \<in> set (fst (mockPolling_tick cbs userId ls sid cur)). origin_of c \<noteq> userId"
    by (auto simp: mockPolling_tick_eq dest!: dispatch_origin newSyncs_not_self)
  have d: "shared_session_id sync = id_session sharedSession \<and> user_id sync \<noteq> userId
      \<longrightarrow> realtime_on_insert cbs userId sharedSession sync = dispatch cbs sync"
    by (simp add: realtime_on_insert_def realtime_handler_def)
  have e: "onCodeChange cbs \<and> onLanguageChange cbs \<and> onCursorChange cbs
        \<and> shared_session_id (event_of p) = id_session sharedSession
        \<and> user_id (event_of p) \<noteq> userId
      \<longrightarrow> (\<exists>c. realtime_on_insert cbs userId sharedSession (event_of p) = [c]
               \<and> origin_of c = user_id (event_of p))"
    using dispatch_event_of [of cbs p] by (simp add: realtime_on_insert_def realtime_handler_def)
  have f: "fst (mockPolling_tick cbs userId ls sid cur)
       = concat (map (dispatch cbs)
           (filter (\<lambda>s. user_id s \<noteq> userId
                       \<and> (case cur of None \<Rightarrow> True
                          | Some l \<Rightarrow> l = [] \<or> string_less l (id_sync s)))
              (read_syncs ls sid)))"
    by (simp add: mockPolling_tick_eq newSyncs_filter)
  from a b c d e f show ?thesis by blast
qed

theorem echo_suppression_per_channel_witness:
  "user_id (event_of (host_publish 2)) \<noteq> ''guest''
   \<and> realtime_on_insert all_callbacks ''host'' host_session (event_of (host_publish 2)) = []
   \<and> realtime_on_insert all_callbacks ''guest'' host_session (event_of (host_publish 2))
       = [OnCodeChange ''v02'' ''host'']
   \<and> origin_of (OnCodeChange ''v02'' ''host'') \<noteq> ''guest''
   \<and> fst (mockPolling_tick all_callbacks ''guest''
              (publish_all empty_storage [host_publish 2, guest_publish]) ''s-1'' None)
       = [OnCodeChange ''v02'' ''host'']"
proof -
  let ?e = "event_of (host_publish 2)"
  let ?ls = "publish_all empty_storage [host_publish 2, guest_publish]"
  have u: "user_id ?e = ''host''" by (simp add: host_publish_def syncCode_event_def)
  have cb: "onCodeChange all_callbacks \<and> onLanguageChange all_callbacks
        \<and> onCursorChange all_callbacks
        \<and> shared_session_id ?e = id_session host_session \<and> user_id ?e \<noteq> ''guest''"
    by (simp add: all_callbacks_def u host_session_def host_publish_def syncCode_event_def)
  have d: "dispatch all_callbacks ?e = [OnCodeChange ''v02'' ''host'']"
    by (simp add: dispatch_def all_callbacks_def host_publish_def syncCode_event_def two_digits_def)
  have tick: "fst (mockPolling_tick all_callbacks ''guest'' ?ls ''s-1'' None)
       = [OnCodeChange ''v02'' ''host'']"
    by code_simp
  note t = echo_suppression_per_channel [where cbs = all_callbacks and sync = ?e
      and userId = "''guest''" and sharedSession = host_session and ls = ?ls and sid = "''s-1''"
      and cur = None and p = "host_publish 2"]
  from t cb have r: "realtime_on_insert all_callbacks ''guest'' host_session ?e
      = dispatch all_callbacks ?e"
    by blast
  from echo_suppression_per_channel [where cbs = all_callbacks and sync = ?e
      and sharedSession = host_session]
  have "realtime_on_insert all_callbacks (user_id ?e) host_session ?e = []" by blast
  then have own: "realtime_on_insert all_callbacks ''host'' host_session ?e = []"
    by (simp only: u)
  from t have "\<forall>c \<in> set (realtime_on_insert all_callbacks ''guest'' host_session ?e).
      origin_of c \<noteq> ''guest''"
    by blast
  then have o: "origin_of (OnCodeChange ''v02'' ''host'') \<noteq> ''guest''"
    by (simp add: r d)
  from cb own r d o tick show ?thesis by simp
qed

text \<open>
  C1 as stated fails on the polling-backed channel: the host publishes 51 edits; a guest
  polling afterwards is never handed the first of them, which the cap has dropped from
  the log, although its origin is not the guest (the realtime handler does deliver it).
\<close>

theorem oldest_of_51_not_delivered:
  "user_id (event_of (host_publish 0)) \<noteq> ''guest''
   \<and> shared_session_id (event_of (host_publish 0)) = ''s-1''
   \<and> realtime_on_insert all_callbacks ''guest'' host_session (event_of (host_publish 0))
       = [OnCodeChange ''v00'' ''host'']
   \<and> OnCodeChange ''v00'' ''host''
       \<notin> set (fst (mockPolling_tick all_callbacks ''guest''
                     (publish_all empty_storage publishes_51) ''s-1'' None))"
  by code_simp

text \<open>
  C10. On the polling-backed channel the tick that runs while the cursor is unset
  dispatches every event of the log that is not the subscriber's own, whenever it was
  published; the log a publisher has written holds at most 50 events, so at most 50 are
  replayed. A tick with a cursor set dispatches only the events that are not the
  subscriber's own and whose id is lexicographically greater than the cursor. A first
  tick that applied some event leaves the id of the last event it applied as the cursor,
  so the next tick is restricted to the events with a greater id.
\<close>

theorem first_tick_replays_retained_log:
  "fst (mockPolling_tick cbs userId ls sid None)
     = concat (map (dispatch cbs) (filter (\<lambda>s. user_id s \<noteq> userId) (read_syncs ls sid)))
   \<and> length (filter (\<lambda>s. user_id s \<noteq> userId)
               (read_syncs (publish ls p) (shared_session_id (event_of p)))) \<le> 50
   \<and> (l \<noteq> [] \<longrightarrow>
        fst (mockPolling_tick cbs userId ls sid (Some l))
          = concat (map (dispatch cbs)
              (filter (\<lambda>s. string_less l (id_sync s) \<and> user_id s \<noteq> userId) (read_syncs ls sid))))
   \<and> (filter (\<lambda>s. user_id s \<noteq> userId) (read_syncs ls sid) \<noteq> []
        \<and> id_sync (last (filter (\<lambda>s. user_id s \<noteq> userId) (read_syncs ls sid))) \<noteq> []
      \<longrightarrow> snd (mockPolling_tick cbs userId ls sid None)
            = Some (id_sync (last (filter (\<lambda>s. user_id s \<noteq> userId) (read_syncs ls sid))))
          \<and> fst (mockPolling_tick cbs userId ls' sid (snd (mockPolling_tick cbs userId ls sid None)))
            = concat (map (dispatch cbs)
                (filter (\<lambda>s. string_less
                               (id_sync (last (filter (\<lambda>s. user_id s \<noteq> userId) (read_syncs ls sid))))
                               (id_sync s)
                            \<and> user_id s \<noteq> userId)
                   (read_syncs ls' sid))))"
proof -
  let ?applied = "filter (\<lambda>s. user_id s \<noteq> userId) (read_syncs ls sid)"
  have a: "fst (mockPolling_tick cbs userId ls sid None) = concat (map (dispatch cbs) ?applied)"
    by (simp add: mockPolling_tick_eq newSyncs_def)
  have "length (filter (\<lambda>s. user_id s \<noteq> userId)
               (read_syncs (publish ls p) (shared_session_id (event_of p))))
        \<le> length (read_syncs (publish ls p) (shared_session_id (event_of p)))"
    by (rule length_filter_le)
  also have "\<dots> \<le> 50" by (simp add: read_syncs_publish length_slice_last)
  finally have b: "length (filter (\<lambda>s. user_id s \<noteq> userId)
               (read_syncs (publish ls p) (shared_session_id (event_of p)))) \<le> 50" .
  have c: "l \<noteq> [] \<longrightarrow>
        fst (mockPolling_tick cbs userId ls sid (Some l))
          = concat (map (dispatch cbs)
              (filter (\<lambda>s. string_less l (id_sync s) \<and> user_id s \<noteq> userId) (read_syncs ls sid)))"
    by (simp add: mockPolling_tick_eq newSyncs_def)
  have d: "?applied \<noteq> [] \<and> id_sync (last ?applied) \<noteq> []
      \<longrightarrow> snd (mockPolling_tick cbs userId ls sid None) = Some (id_sync (last ?applied))
          \<and> fst (mockPolling_tick cbs userId ls' sid (snd (mockPolling_tick cbs userId ls sid None)))
            = concat (map (dispatch cbs)
                (filter (\<lambda>s. string_less (id_sync (last ?applied)) (id_sync s)
                            \<and> user_id s \<noteq> userId)
                   (read_syncs ls' sid)))"
    by (simp add: mockPolling_tick_eq newSyncs_def)
  from a b c d show ?thesis by blast
qed

theorem first_tick_replays_retained_log_witness:
  "read_syncs storage_before_subscribing ''s-1''
     = [event_of (host_publish 2), event_of guest_publish, event_of (host_publish 3)]
   \<and> mockPolling_tick all_callbacks ''guest'' storage_before_subscribing ''s-1'' None
     = ([OnCodeChange ''v02'' ''host'', OnCodeChange ''v03'' ''host''], Some ''1700000000003_0.5'')
   \<and> fst (mockPolling_tick all_callbacks ''guest''
            (publish storage_before_subscribing (host_publish 4)) ''s-1''
            (snd (mockPolling_tick all_callbacks ''guest'' storage_before_subscribing ''s-1'' None)))
     = [OnCodeChange ''v04'' ''host'']"
proof -
  let ?ls = storage_before_subscribing
  let ?ls' = "publish storage_before_subscribing (host_publish 4)"
  let ?applied = "filter (\<lambda>s. user_id s \<noteq> ''guest'') (read_syncs ?ls ''s-1'')"
  have lg: "read_syncs ?ls ''s-1''
     = [event_of (host_publish 2), event_of guest_publish, event_of (host_publish 3)]"
    by code_simp
  have ap: "?applied = [event_of (host_publish 2), event_of (host_publish 3)]"
    by code_simp
  have h: "?applied \<noteq> [] \<and> id_sync (last ?applied) \<noteq> []"
    by code_simp
  have t1: "mockPolling_tick all_callbacks ''guest'' ?ls ''s-1'' None
     = ([OnCodeChange ''v02'' ''host'', OnCodeChange ''v03'' ''host''], Some ''1700000000003_0.5'')"
    by code_simp
  have f: "concat (map (dispatch all_callbacks)
                (filter (\<lambda>s. string_less (id_sync (last ?applied)) (id_sync s)
                            \<and> user_id s \<noteq> ''guest'')
                   (read_syncs ?ls' ''s-1''))) = [OnCodeChange ''v04'' ''host'']"
    by code_simp
  note t = first_tick_replays_retained_log [of all_callbacks "''guest''" ?ls "''s-1''"
      "host_publish 4" "''x''" ?ls']
  from t h have "fst (mockPolling_tick all_callbacks ''guest'' ?ls' ''s-1''
            (snd (mockPolling_tick all_callbacks ''guest'' ?ls ''s-1'' None)))
     = concat (map (dispatch all_callbacks)
                (filter (\<lambda>s. string_less (id_sync (last ?applied)) (id_sync s)
                            \<and> user_id s \<noteq> ''guest'')
                   (read_syncs ?ls' ''s-1'')))"
    by blast
  with f have t2: "fst (mockPolling_tick all_callbacks ''guest'' ?ls' ''s-1''
            (snd (mockPolling_tick all_callbacks ''guest'' ?ls ''s-1'' None)))
     = [OnCodeChange ''v04'' ''host'']"
    by simp
  from lg t1 t2 show ?thesis by blast
qed

section \<open>Properties of the session registry\<close>

lemma generate_AB3K9Q: "generateShareCode rnd_AB3K9Q = ''AB3K9Q''"
  by (simp add: generateShareCode_def rnd_AB3K9Q_def charAt_def chars_def)

lemma create_host_session:
  "createSharedSession_mock empty_storage ''host'' rnd_AB3K9Q ''s-1''
            1700000000000 1700000000000 ''e-1'' Edit
   = (host_session, empty_storage\<lparr>shared_session_items := [''AB3K9Q'' \<mapsto> host_session]\<rparr>)"
  by (simp add: createSharedSession_mock_def Let_def generate_AB3K9Q host_session_def empty_storage_def)

lemma storage_with_host_session_eq:
  "storage_with_host_session = empty_storage\<lparr>shared_session_items := [''AB3K9Q'' \<mapsto> host_session]\<rparr>"
  by (simp add: storage_with_host_session_def create_host_session)








lemma toUpperCase_char_chars: "c \<in> set chars \<Longrightarrow> toUpperCase_char c = c"
proof -
  have "list_all (\<lambda>c. toUpperCase_char c = c) chars"
    by (simp add: chars_def toUpperCase_char_def)
  then show "c \<in> set chars \<Longrightarrow> toUpperCase_char c = c"
    by (simp add: list_all_iff)
qed

lemma toUpperCase_generated: "set s \<subseteq> set chars \<Longrightarrow> toUpperCase s = s"
  by (simp add: toUpperCase_def map_idI subset_iff toUpperCase_char_chars)





lemma createSharedSession_mock_record:
  "createSharedSession_mock ls userId rnd uuid now_created now_expires sessionId perms = (s, ls')
   \<Longrightarrow> is_active s \<and> guest_user_id s = None \<and> connected_at s = None \<and> permissions s = perms
       \<and> host_user_id s = Some userId \<and> share_code s = generateShareCode rnd
       \<and> expires_at s = now_expires + 86400000
       \<and> shared_session_items ls' (share_code s) = Some s"
  by (auto simp: createSharedSession_mock_def Let_def)

text \<open>
  C6, at the failing input. On the local registry, a second \<open>createSharedSession\<close>
  whose draws spell the code of the host's active session returns normally and replaces
  the host's record under that code: the collision is neither detected nor rejected nor
  retried. The hosted registry rejects the same insert through the UNIQUE constraint on
  \<open>share_code\<close>.
\<close>

theorem createSharedSession_mock_collision:
  "shared_session_items storage_with_host_session ''AB3K9Q'' = Some host_session
   \<and> is_active host_session
   \<and> createSharedSession_mock storage_with_host_session ''other'' rnd_AB3K9Q ''s-2''
        1700000005000 1700000005000 ''e-2'' View
       = (other_session, empty_storage\<lparr>shared_session_items := [''AB3K9Q'' \<mapsto> other_session]\<rparr>)
   \<and> other_session \<noteq> host_session
   \<and> fst (createSharedSession_remote True [host_session] ''other'' rnd_AB3K9Q ''s-2''
            1700000005000 ''e-2'' View)
       = Inl (StoreError ''duplicate key value violates unique constraint'')"
  by (simp add: createSharedSession_mock_def Let_def generate_AB3K9Q storage_with_host_session_eq
        empty_storage_def other_session_def host_session_def
        createSharedSession_remote_def insert_shared_session_def)

lemma endSession_remote_guest: "endSession_remote reachable table sid False = table"
  by (simp add: endSession_remote_def)

lemma endSession_remote_host:
  "endSession_remote True table sid True =
     map (\<lambda>r. if id_session r = sid then r\<lparr>is_active := False\<rparr> else r) table"
  by (simp add: endSession_remote_def)

text \<open>
  C7, at the failing input. On the local registry the host's \<open>endSession\<close> removes the
  event log and leaves the session record as it was: still active, and a later join
  succeeds; the guest's call does the same. On the hosted registry the host's call sets
  \<open>is_active\<close> to false and changes nothing else, the guest's call changes nothing, and
  a join after the host's call fails.
\<close>

theorem endSession_mock_keeps_session_active:
  "read_syncs storage_while_hosting ''s-1'' = [event_of (host_publish 2)]
   \<and> shared_session_items storage_while_hosting ''AB3K9Q'' = Some host_session
   \<and> read_syncs (endSession_mock storage_while_hosting ''s-1'' True) ''s-1'' = []
   \<and> shared_session_items (endSession_mock storage_while_hosting ''s-1'' True) ''AB3K9Q''
       = Some host_session
   \<and> is_active host_session
   \<and> endSession_mock storage_while_hosting ''s-1'' False
       = endSession_mock storage_while_hosting ''s-1'' True
   \<and> isl (joinSharedSession_mock (endSession_mock storage_while_hosting ''s-1'' True)
             ''guest'' 1700000009000 ''AB3K9Q'') = False
   \<and> endSession_remote True [host_session] ''s-1'' True = [host_session\<lparr>is_active := False\<rparr>]
   \<and> endSession_remote True [host_session] ''s-1'' False = [host_session]
   \<and> fst (joinSharedSession_remote True (endSession_remote True [host_session] ''s-1'' True)
             ''guest'' 1700000009000 ''AB3K9Q'')
       = Inl (Error ''Session not found or no longer active'')"
proof -
  have s: "storage_while_hosting
      = storage_with_host_session\<lparr>code_sync_items := [''s-1'' \<mapsto> [event_of (host_publish 2)]]\<rparr>"
    by (simp add: storage_while_hosting_def host_publish_def syncCode_mock_def push_sync_def
          read_syncs_def slice_last_def storage_with_host_session_eq empty_storage_def Let_def)
  have u: "toUpperCase ''AB3K9Q'' = ''AB3K9Q''" by (simp add: toUpperCase_def toUpperCase_char_def)
  show ?thesis
    unfolding s
    by (simp add: read_syncs_def endSession_mock_def storage_with_host_session_eq empty_storage_def
          joinSharedSession_mock_def Let_def u host_session_def
          endSession_remote_def joinSharedSession_remote_def update_shared_session_join_def
          join_matches_def)
qed

end
